theory Spec2Isabelle
  imports Complex_Main "HOL-Library.Sublist" "HOL-Library.Char_ord" "HOL-Library.List_Lexorder"
begin

section \<open>Python strings\<close>

text \<open>
  A Python \<open>str\<close> is modelled as a \<open>string\<close>, one \<open>char\<close> per code point; the
  model therefore covers the code points below 256. The helpers below are the \<open>str\<close>
  methods that \<open>core.py\<close> calls.
\<close>

definition is_space :: "char \<Rightarrow> bool" where
  \<comment> \<open>\<open>str.isspace\<close> on one code point below 256: TAB..CR, FS..US, space, NEL, NBSP.\<close>
  "is_space c =
     (let n = (of_char c :: nat)
      in (9 \<le> n \<and> n \<le> 13) \<or> (28 \<le> n \<and> n \<le> 32) \<or> n = 133 \<or> n = 160)"

definition strip :: "string \<Rightarrow> string" where
  \<comment> \<open>\<open>s.strip()\<close>: leading and trailing whitespace removed.\<close>
  "strip s = rev (dropWhile is_space (rev (dropWhile is_space s)))"

function replace :: "string \<Rightarrow> string \<Rightarrow> string \<Rightarrow> string" where
  \<comment> \<open>\<open>s.replace(old, new)\<close> for a non-empty \<open>old\<close>: every non-overlapping occurrence,
      scanning from the left. \<open>core.py\<close> only calls it with a non-empty literal \<open>old\<close>;
      for an empty \<open>old\<close> the model returns \<open>s\<close> unchanged.\<close>
  "replace s old new =
     (if old = [] \<or> s = [] then s
      else if prefix old s then new @ replace (drop (length old) s) old new
      else hd s # replace (tl s) old new)"
  by pat_completeness auto
termination
  by (relation "measure (\<lambda>(s, old, new). length s)") auto

declare replace.simps [simp del]

fun split_once :: "string \<Rightarrow> string \<Rightarrow> string \<Rightarrow> string \<times> string option" where
  \<comment> \<open>Scans for the first occurrence of the non-empty separator: the text before it
      (accumulated in reverse) and, when there is one, the text after it.\<close>
  "split_once sep acc [] = (rev acc, None)"
| "split_once sep acc (c # cs) =
     (if prefix sep (c # cs) then (rev acc, Some (drop (length sep) (c # cs)))
      else split_once sep (c # acc) cs)"

lemma split_once_shorter:
  "split_once sep acc s = (front, Some rest) \<Longrightarrow> sep \<noteq> [] \<Longrightarrow> length rest < length s"
  by (induction sep acc s rule: split_once.induct) (auto split: if_splits)

function split :: "string \<Rightarrow> string \<Rightarrow> string list" where
  \<comment> \<open>\<open>s.split(sep)\<close> for a non-empty \<open>sep\<close> (an empty one raises ValueError in Python;
      \<open>core.py\<close> only passes the literal \<open>"://"\<close>, and the model returns \<open>[s]\<close> there).\<close>
  "split s sep =
     (if sep = [] then [s]
      else case split_once sep [] s of
        (front, None) \<Rightarrow> [front]
      | (front, Some rest) \<Rightarrow> front # split rest sep)"
  by pat_completeness auto
termination
  by (relation "measure (\<lambda>(s, sep). length s)") (auto dest: split_once_shorter [OF sym])

declare split.simps [simp del]

definition last_n :: "nat \<Rightarrow> string \<Rightarrow> string" where
  \<comment> \<open>\<open>s[-n:]\<close> for \<open>n > 0\<close>: the last \<open>n\<close> characters, the whole string when it is
      shorter.\<close>
  "last_n n s = drop (length s - n) s"

section \<open>\<open>difflib\<close>: the similarity ratio behind \<open>find_closest_channel\<close>\<close>

text \<open>
  \<open>find_closest_channel\<close> calls \<open>difflib.get_close_matches(channel_name, names, n=1,
  cutoff=0.5)\<close>. The model follows CPython's \<open>difflib.py\<close>: \<open>SequenceMatcher\<close> with
  \<open>a\<close> the candidate and \<open>b\<close> the word looked for. Ratios are exact rationals where
  Python has floats; the two agree on every comparison made here unless the strings
  are astronomically long.
\<close>

definition calculate_ratio :: "nat \<Rightarrow> nat \<Rightarrow> rat" where
  \<comment> \<open>\<open>_calculate_ratio(matches, length)\<close>: \<open>2.0 * matches / length\<close>, and \<open>1.0\<close> for length 0\<close>
  "calculate_ratio matches len = (if len \<noteq> 0 then 2 * of_nat matches / of_nat len else 1)"

text \<open>
  \<open>__chain_b\<close>: \<open>b2j\<close> maps each element of \<open>b\<close> to the ascending list of its
  positions. With \<open>isjunk=None\<close> there is no junk; with \<open>autojunk\<close> (the default) and
  \<open>len(b) >= 200\<close>, an element that occurs more than \<open>len(b) // 100 + 1\<close> times is
  popular and loses its entry.
\<close>

definition indices_of :: "char \<Rightarrow> string \<Rightarrow> nat list" where
  "indices_of elt b = filter (\<lambda>i. b ! i = elt) [0..<length b]"

definition bpopular :: "string \<Rightarrow> char \<Rightarrow> bool" where
  "bpopular b elt = (length b \<ge> 200 \<and> length (indices_of elt b) > length b div 100 + 1)"

definition b2j :: "string \<Rightarrow> char \<Rightarrow> nat list" where
  "b2j b elt = (if bpopular b elt then [] else indices_of elt b)"

text \<open>
  \<open>find_longest_match(alo, ahi, blo, bhi)\<close>. \<open>flm_inner\<close> is the loop over
  \<open>b2j.get(a[i], nothing)\<close> with its \<open>continue\<close> and \<open>break\<close>, on the state
  \<open>(newj2len, besti, bestj, bestsize)\<close>; \<open>j2len.get(j-1, 0)\<close> is 0 for \<open>j = 0\<close>, where the
  key \<open>-1\<close> is never present. \<open>flm_outer\<close> is the loop over \<open>range(alo, ahi)\<close>. The two
  \<open>while\<close> loops that extend the match by non-junk elements follow; the two that
  extend it by junk elements never run, the junk set being empty.
\<close>

type_synonym match = "nat \<times> nat \<times> nat"

fun flm_inner ::
  "(nat \<rightharpoonup> nat) \<Rightarrow> nat \<Rightarrow> nat \<Rightarrow> nat \<Rightarrow> nat list \<Rightarrow> (nat \<rightharpoonup> nat) \<times> match \<Rightarrow> (nat \<rightharpoonup> nat) \<times> match" where
  "flm_inner j2len i blo bhi [] st = st"
| "flm_inner j2len i blo bhi (j # js) (newj2len, besti, bestj, bestsize) =
     (if j < blo then flm_inner j2len i blo bhi js (newj2len, besti, bestj, bestsize)
      else if j \<ge> bhi then (newj2len, besti, bestj, bestsize)
      else
        let k = (if j = 0 then 0 else case j2len (j - 1) of None \<Rightarrow> 0 | Some v \<Rightarrow> v) + 1;
            newj2len' = newj2len(j \<mapsto> k)
        in if k > bestsize
           then flm_inner j2len i blo bhi js (newj2len', Suc i - k, Suc j - k, k)
           else flm_inner j2len i blo bhi js (newj2len', besti, bestj, bestsize))"

fun flm_outer ::
  "string \<Rightarrow> string \<Rightarrow> nat \<Rightarrow> nat \<Rightarrow> nat list \<Rightarrow> (nat \<rightharpoonup> nat) \<times> match \<Rightarrow> (nat \<rightharpoonup> nat) \<times> match" where
  "flm_outer a b blo bhi [] st = st"
| "flm_outer a b blo bhi (i # is) (j2len, bst) =
     flm_outer a b blo bhi is (flm_inner j2len i blo bhi (b2j b (a ! i)) (Map.empty, bst))"

function extend_left :: "string \<Rightarrow> string \<Rightarrow> nat \<Rightarrow> nat \<Rightarrow> match \<Rightarrow> match" where
  "extend_left a b alo blo (besti, bestj, bestsize) =
     (if besti > alo \<and> bestj > blo \<and> a ! (besti - 1) = b ! (bestj - 1)
      then extend_left a b alo blo (besti - 1, bestj - 1, bestsize + 1)
      else (besti, bestj, bestsize))"
  by pat_completeness auto
termination
  by (relation "measure (\<lambda>(a, b, alo, blo, besti, bestj, bestsize). besti)") auto

declare extend_left.simps [simp del]

function extend_right :: "string \<Rightarrow> string \<Rightarrow> nat \<Rightarrow> nat \<Rightarrow> match \<Rightarrow> match" where
  "extend_right a b ahi bhi (besti, bestj, bestsize) =
     (if besti + bestsize < ahi \<and> bestj + bestsize < bhi \<and> a ! (besti + bestsize) = b ! (bestj + bestsize)
      then extend_right a b ahi bhi (besti, bestj, bestsize + 1)
      else (besti, bestj, bestsize))"
  by pat_completeness auto
termination
  by (relation "measure (\<lambda>(a, b, ahi, bhi, besti, bestj, bestsize). ahi - (besti + bestsize))") auto

declare extend_right.simps [simp del]

definition find_longest_match :: "string \<Rightarrow> string \<Rightarrow> nat \<Rightarrow> nat \<Rightarrow> nat \<Rightarrow> nat \<Rightarrow> match" where
  "find_longest_match a b alo ahi blo bhi =
     extend_right a b ahi bhi
       (extend_left a b alo blo (snd (flm_outer a b blo bhi [alo..<ahi] (Map.empty, alo, blo, 0))))"

text \<open>The match lies inside the \<open>a\<close>-range it was searched in; the queue loop of
  \<open>get_matching_blocks\<close> terminates by this.\<close>

definition in_range :: "nat \<Rightarrow> nat \<Rightarrow> match \<Rightarrow> bool" where
  "in_range alo hi m = (case m of (bi, bj, bs) \<Rightarrow> alo \<le> bi \<and> bi + bs \<le> hi)"

definition row_ok :: "nat \<Rightarrow> nat \<Rightarrow> (nat \<rightharpoonup> nat) \<Rightarrow> bool" where
  "row_ok alo i m = (\<forall>j v. m j = Some v \<longrightarrow> v \<le> i - alo)"

lemma flm_inner_ok:
  assumes "alo \<le> i" "i < hi" "row_ok alo i j2len" "row_ok alo (Suc i) new" "in_range alo hi bst"
  shows "row_ok alo (Suc i) (fst (flm_inner j2len i blo bhi js (new, bst)))
       \<and> in_range alo hi (snd (flm_inner j2len i blo bhi js (new, bst)))"
  using assms
proof (induction js arbitrary: new bst)
  case Nil
  then show ?case by simp
next
  case (Cons j js)
  obtain bi bj bs where bst: "bst = (bi, bj, bs)" by (cases bst)
  define k where "k = (if j = 0 then 0 else case j2len (j - 1) of None \<Rightarrow> 0 | Some v \<Rightarrow> v) + 1"
  have k: "k \<le> Suc i - alo" "0 < k"
    using Cons.prems(1,3) by (auto simp: k_def row_ok_def split: option.splits) (metis Suc_diff_le Suc_le_mono)
  have new': "row_ok alo (Suc i) (new(j \<mapsto> k))"
    using Cons.prems(4) k by (auto simp: row_ok_def)
  have best': "in_range alo hi (Suc i - k, Suc j - k, k)"
    using k Cons.prems(1,2) by (auto simp: in_range_def)
  have step: "flm_inner j2len i blo bhi (j # js) (new, bst) =
      (if j < blo then flm_inner j2len i blo bhi js (new, bst)
       else if bhi \<le> j then (new, bst)
       else if bs < k then flm_inner j2len i blo bhi js (new(j \<mapsto> k), Suc i - k, Suc j - k, k)
       else flm_inner j2len i blo bhi js (new(j \<mapsto> k), bst))"
    by (simp add: bst k_def Let_def)
  note ih1 = Cons.IH [OF Cons.prems(1-3) new' best']
    and ih2 = Cons.IH [OF Cons.prems(1-3) new' Cons.prems(5)]
    and ih3 = Cons.IH [OF Cons.prems(1-5)]
  show ?case
    unfolding step using ih1 ih2 ih3 Cons.prems(4,5) by (simp add: fun_upd_def)
qed

lemma flm_outer_ok:
  assumes "alo \<le> i" "ahi \<le> hi" "row_ok alo i j2len" "in_range alo hi bst"
  shows "in_range alo hi (snd (flm_outer a b blo bhi [i..<ahi] (j2len, bst)))"
  using assms
proof (induction "ahi - i" arbitrary: i j2len bst)
  case 0
  then show ?case by simp
next
  case (Suc n)
  then have lt: "i < ahi" and n: "n = ahi - Suc i" by auto
  let ?st = "flm_inner j2len i blo bhi (b2j b (a ! i)) (Map.empty, bst)"
  have ok: "row_ok alo (Suc i) (fst ?st) \<and> in_range alo hi (snd ?st)"
    using Suc.prems lt by (intro flm_inner_ok) (auto simp: row_ok_def)
  have "in_range alo hi (snd (flm_outer a b blo bhi [Suc i..<ahi] (fst ?st, snd ?st)))"
    using Suc.prems ok by (intro Suc.hyps(1) [OF n]) auto
  then show ?case
    using lt by (simp add: upt_conv_Cons)
qed

lemma extend_left_ok:
  "in_range alo hi m \<Longrightarrow> in_range alo hi (extend_left a b alo blo m)"
proof (induction a b alo blo m rule: extend_left.induct)
  case (1 a b alo blo besti bestj bestsize)
  then show ?case
    by (subst extend_left.simps) (auto simp: in_range_def)
qed

lemma extend_right_ok:
  "in_range alo hi m \<Longrightarrow> ahi \<le> hi \<Longrightarrow> in_range alo hi (extend_right a b ahi bhi m)"
proof (induction a b ahi bhi m rule: extend_right.induct)
  case (1 a b ahi bhi besti bestj bestsize)
  then show ?case
    by (subst extend_right.simps) (auto simp: in_range_def)
qed

lemma find_longest_match_range:
  "in_range alo (max alo ahi) (find_longest_match a b alo ahi blo bhi)"
  unfolding find_longest_match_def
  by (intro extend_right_ok extend_left_ok flm_outer_ok) (auto simp: row_ok_def in_range_def)

lemma find_longest_match_bounds:
  assumes "find_longest_match a b alo ahi blo bhi = (i, j, k)" and "k \<noteq> 0"
  shows "alo \<le> i \<and> i + k \<le> ahi"
  using find_longest_match_range [of alo ahi a b blo bhi] assms
  by (auto simp: in_range_def max_def split: if_splits)

text \<open>
  \<open>get_matching_blocks\<close>: the \<open>while queue\<close> loop. The queue is a stack (\<open>pop()\<close> takes
  the element appended last), here a list with its top at the head. \<open>ratio\<close> only
  reads the sum of the block sizes, which the sorting, the merging of adjacent blocks
  and the closing sentinel \<open>(la, lb, 0)\<close> leave unchanged, so the model stops at the
  list the loop builds.
\<close>

type_synonym span = "nat \<times> nat \<times> nat \<times> nat"

function matching_blocks_loop :: "string \<Rightarrow> string \<Rightarrow> span list \<Rightarrow> match list \<Rightarrow> match list" where
  "matching_blocks_loop a b [] matching_blocks = matching_blocks"
| "matching_blocks_loop a b ((alo, ahi, blo, bhi) # queue) matching_blocks =
     (case find_longest_match a b alo ahi blo bhi of (i, j, k) \<Rightarrow>
        if k \<noteq> 0
        then matching_blocks_loop a b
               ((if i + k < ahi \<and> j + k < bhi then [(i + k, ahi, j + k, bhi)] else [])
                @ (if alo < i \<and> blo < j then [(alo, i, blo, j)] else []) @ queue)
               (matching_blocks @ [(i, j, k)])
        else matching_blocks_loop a b queue matching_blocks)"
  by pat_completeness auto
termination
  apply (relation "measure (\<lambda>(a, b, queue, blocks). \<Sum>(alo, ahi, blo, bhi)\<leftarrow>queue. 2 * (ahi - alo) + 1)")
    apply simp
   apply (auto dest!: find_longest_match_bounds [OF sym])
  done

declare matching_blocks_loop.simps [simp del]

definition get_matching_blocks :: "string \<Rightarrow> string \<Rightarrow> match list" where
  "get_matching_blocks a b = matching_blocks_loop a b [(0, length a, 0, length b)] []"

definition ratio :: "string \<Rightarrow> string \<Rightarrow> rat" where
  \<comment> \<open>\<open>SequenceMatcher(None, a, b).ratio()\<close>\<close>
  "ratio a b = calculate_ratio (\<Sum>(i, j, k)\<leftarrow>get_matching_blocks a b. k) (length a + length b)"

fun quick_loop :: "string \<Rightarrow> string \<Rightarrow> (char \<rightharpoonup> int) \<Rightarrow> nat \<Rightarrow> nat" where
  \<comment> \<open>\<open>quick_ratio\<close>: the loop over \<open>a\<close> on the state \<open>(avail, matches)\<close>;
      \<open>fullbcount.get(elt, 0)\<close> is the number of occurrences of \<open>elt\<close> in \<open>b\<close>.\<close>
  "quick_loop b [] avail matches = matches"
| "quick_loop b (elt # rest) avail matches =
     (let numb = (case avail elt of Some n \<Rightarrow> n | None \<Rightarrow> int (count_list b elt))
      in quick_loop b rest (avail(elt \<mapsto> numb - 1)) (if numb > 0 then matches + 1 else matches))"

definition quick_ratio :: "string \<Rightarrow> string \<Rightarrow> rat" where
  "quick_ratio a b = calculate_ratio (quick_loop b a Map.empty 0) (length a + length b)"

definition real_quick_ratio :: "string \<Rightarrow> string \<Rightarrow> rat" where
  "real_quick_ratio a b = calculate_ratio (min (length a) (length b)) (length a + length b)"

definition close_scores :: "string \<Rightarrow> string list \<Rightarrow> rat \<Rightarrow> (rat \<times> string) list" where
  \<comment> \<open>\<open>get_close_matches\<close>: the list \<open>result\<close> of \<open>(score, x)\<close> pairs that pass the three
      tests against the cutoff, in the order of \<open>possibilities\<close>.\<close>
  "close_scores word possibilities cutoff =
     map (\<lambda>x. (ratio x word, x))
       (filter (\<lambda>x. real_quick_ratio x word \<ge> cutoff \<and> quick_ratio x word \<ge> cutoff
                     \<and> ratio x word \<ge> cutoff) possibilities)"

fun py_max :: "rat \<times> string \<Rightarrow> (rat \<times> string) list \<Rightarrow> rat \<times> string" where
  \<comment> \<open>\<open>max\<close> over tuples: a later item replaces the running maximum only when it is
      strictly greater, scores first and then the strings by code point.\<close>
  "py_max best [] = best"
| "py_max best (item # items) =
     py_max (if fst item > fst best \<or> (fst item = fst best \<and> snd item > snd best)
             then item else best) items"

definition get_close_matches :: "string \<Rightarrow> string list \<Rightarrow> rat \<Rightarrow> string list" where
  \<comment> \<open>\<open>get_close_matches(word, possibilities, n=1, cutoff)\<close>: \<open>heapq.nlargest(1, result)\<close>
      is \<open>[max(result)]\<close>, or \<open>[]\<close> for an empty \<open>result\<close>.\<close>
  "get_close_matches word possibilities cutoff =
     (case close_scores word possibilities cutoff of
        [] \<Rightarrow> []
      | r # rs \<Rightarrow> [snd (py_max r rs)])"

definition find_closest_channel :: "string \<Rightarrow> string list \<Rightarrow> string option" where
  \<comment> \<open>\<open>closest_matches[0] if closest_matches else None\<close>\<close>
  "find_closest_channel channel_name channels_names =
     (case get_close_matches channel_name channels_names (1 / 2) of
        [] \<Rightarrow> None
      | c # _ \<Rightarrow> Some c)"

section \<open>The comparison pool of \<open>extract_program_links\<close>\<close>

definition without_quality :: "string \<Rightarrow> string" where
  \<comment> \<open>\<open>title.replace("720", "").replace("1080", "")\<close>\<close>
  "without_quality title = replace (replace title ''720'' '''') ''1080'' ''''"

definition titulos_without_quality :: "string list \<Rightarrow> string list" where
  \<comment> \<open>\<open>[title.replace("720", "").replace("1080", "") for title in titulos]\<close>\<close>
  "titulos_without_quality titulos = map without_quality titulos"

section \<open>The schedule scraper: \<open>get_tv_programs\<close>\<close>

text \<open>
  \<open>@dataclass class Event\<close>. The page is read through BeautifulSoup; the model takes
  what \<open>find_all\<close> and \<open>find\<close> return: the \<open>li.content-item\<close> day sections in document
  order, each with the text of its \<open>span.title-section-widget\<close> (if it has one) and
  its \<open>li.dailyevent\<close> rows, each row with the text of its four sub-elements (\<open>None\<close>
  where \<open>find\<close> returns \<open>None\<close>).
\<close>

record Event =
  day :: string
  time :: string
  event :: string
  channel :: string
  sport :: string

record dailyevent =
  time_tag :: "string option"
  event_name_tag :: "string option"
  channel_tag :: "string option"
  sport_tag :: "string option"

record day_section =
  day_span :: "string option"
  events :: "dailyevent list"

type_synonym event_id = "string \<times> string \<times> string \<times> string"

definition text_or_na :: "string option \<Rightarrow> string" where
  \<comment> \<open>\<open>tag.text.strip() if tag else "N/A"\<close>\<close>
  "text_or_na tag = (case tag of Some t \<Rightarrow> strip t | None \<Rightarrow> ''N/A'')"

definition row_event :: "string \<Rightarrow> dailyevent \<Rightarrow> Event" where
  \<comment> \<open>\<open>Event(day, time_text, event_name, channel, sport)\<close> for one row\<close>
  "row_event d ev =
     \<lparr>day = d, time = text_or_na (time_tag ev), event = text_or_na (event_name_tag ev),
      channel = text_or_na (channel_tag ev), sport = text_or_na (sport_tag ev)\<rparr>"

definition event_id :: "Event \<Rightarrow> event_id" where
  \<comment> \<open>\<open>event_id = (day, time_text, event_name, channel)\<close>\<close>
  "event_id e = (day e, time e, event e, channel e)"

fun events_loop ::
  "string \<Rightarrow> dailyevent list \<Rightarrow> Event list \<times> event_id set \<Rightarrow> Event list \<times> event_id set" where
  \<comment> \<open>\<open>for event in events\<close>, on the state \<open>(events_data, seen_events)\<close>\<close>
  "events_loop d [] st = st"
| "events_loop d (ev # evs) (events_data, seen_events) =
     (let e = row_event d ev
      in if event_id e \<notin> seen_events
         then events_loop d evs (events_data @ [e], insert (event_id e) seen_events)
         else events_loop d evs (events_data, seen_events))"

fun sections_loop ::
  "day_section list \<Rightarrow> Event list \<times> event_id set \<Rightarrow> Event list \<times> event_id set" where
  \<comment> \<open>\<open>for day_section in day_sections\<close>; a section with no day span is skipped\<close>
  "sections_loop [] st = st"
| "sections_loop (sec # secs) st =
     (case day_span sec of
        None \<Rightarrow> sections_loop secs st
      | Some t \<Rightarrow> sections_loop secs (events_loop (strip t) (events sec) st))"

definition get_tv_programs :: "day_section list option \<Rightarrow> Event list" where
  \<comment> \<open>The argument is \<open>None\<close> when the request raises \<open>RequestException\<close>; the first
      section is dropped (\<open>day_sections[1:]\<close>).\<close>
  "get_tv_programs response =
     (case response of
        None \<Rightarrow> []
      | Some day_sections \<Rightarrow> fst (sections_loop (drop 1 day_sections) ([], {})))"

fun scraped_rows :: "day_section list \<Rightarrow> Event list" where
  \<comment> \<open>Every row the two loops visit, as an event, in the order they visit it (no
      deduplication): the input that the \<open>seen_events\<close> test filters.\<close>
  "scraped_rows [] = []"
| "scraped_rows (sec # secs) =
     (case day_span sec of
        None \<Rightarrow> scraped_rows secs
      | Some t \<Rightarrow> map (row_event (strip t)) (events sec) @ scraped_rows secs)"

section \<open>The stream anchors: \<open>re.findall\<close>\<close>

text \<open>
  Both extractors scan the page with
  \<^verbatim>\<open>re.findall(r'<a href="(acestream://[^"]+)"[^>]*>(.*?)</a>', html)\<close>.
  The pattern leaves the matcher no choice: the first group runs to the next double
  quote and must not be empty, the attributes run to the next \<open>>\<close>, and the lazy
  second group runs to the first \<open></a>\<close>, which must come before any newline (the
  dot matches no newline). \<open>findall\<close> returns the two groups of each match, the
  matches being found from left to right without overlap.
\<close>

definition dquote :: char where
  "dquote = CHR 0x22"

definition anchor_open :: string where
  \<comment> \<open>the literal text up to the first group\<close>
  "anchor_open = ''<a href='' @ [dquote]"

fun lazy_title :: "string \<Rightarrow> (string \<times> string) option" where
  \<comment> \<open>\<open>(.*?)</a>\<close>: the group and the text after the match\<close>
  "lazy_title [] = None"
| "lazy_title (c # cs) =
     (if prefix ''</a>'' (c # cs) then Some ([], drop 4 (c # cs))
      else if c = CHR 0x0A then None
      else case lazy_title cs of None \<Rightarrow> None | Some (t, rest) \<Rightarrow> Some (c # t, rest))"

definition match_anchor :: "string \<Rightarrow> ((string \<times> string) \<times> string) option" where
  \<comment> \<open>a match that starts at the head of the text: its groups and the text after it\<close>
  "match_anchor s =
     (if \<not> prefix (anchor_open @ ''acestream://'') s then None
      else
        let r = drop (length (anchor_open @ ''acestream://'')) s;
            ident = takeWhile (\<lambda>c. c \<noteq> dquote) r;
            r1 = dropWhile (\<lambda>c. c \<noteq> dquote) r
        in if ident = [] \<or> r1 = [] then None
           else
             let r2 = dropWhile (\<lambda>c. c \<noteq> CHR ''>'') (tl r1)
             in if r2 = [] then None
                else case lazy_title (tl r2) of
                       None \<Rightarrow> None
                     | Some (titulo, rest) \<Rightarrow> Some ((''acestream://'' @ ident, titulo), rest))"

fun findall_from :: "nat \<Rightarrow> string \<Rightarrow> (string \<times> string) list" where
  \<comment> \<open>the scan; the counter is the number of characters still covered by the last
      match\<close>
  "findall_from skip [] = []"
| "findall_from (Suc skip) (c # cs) = findall_from skip cs"
| "findall_from 0 (c # cs) =
     (case match_anchor (c # cs) of
        Some (m, rest) \<Rightarrow> m # findall_from (length cs - length rest) cs
      | None \<Rightarrow> findall_from 0 cs)"

definition findall :: "string \<Rightarrow> (string \<times> string) list" where
  "findall html = findall_from 0 html"

section \<open>The reconciler: \<open>extract_program_links\<close>\<close>

datatype py_error = KeyError string | IndexError

definition play_prefix :: string where
  "play_prefix = ''plugin://script.module.horus?action=play&id=''"

fun links_loop ::
  "(string \<times> string) list \<Rightarrow> (string \<rightharpoonup> string) \<times> string list
     \<Rightarrow> (string \<rightharpoonup> string) \<times> string list" where
  \<comment> \<open>\<open>for enlace, titulo in patrones\<close>, on the state \<open>(enlaces, titulos)\<close>\<close>
  "links_loop [] st = st"
| "links_loop ((enlace, titulo) # patrones) (enlaces, titulos) =
     (let nuevo_enlace = replace enlace ''acestream://'' play_prefix
      in links_loop patrones (enlaces(strip titulo \<mapsto> nuevo_enlace), titulos @ [strip titulo]))"

definition title_index :: "string \<Rightarrow> (string \<rightharpoonup> string) \<times> string list" where
  \<comment> \<open>the dictionary \<open>enlaces\<close> and the list \<open>titulos\<close> after the first loop\<close>
  "title_index html = links_loop (findall html) (Map.empty, [])"

definition getitem :: "(string \<rightharpoonup> string) \<Rightarrow> string \<Rightarrow> py_error + string" where
  \<comment> \<open>\<open>enlaces[key]\<close>\<close>
  "getitem d k = (case d k of None \<Rightarrow> Inl (KeyError k) | Some v \<Rightarrow> Inr v)"

record prog_state =
  new_enlaces :: "string list"
  new_titulos :: "string list"
  last_date :: "string option"

definition day_boundary :: "Event \<Rightarrow> prog_state \<Rightarrow> prog_state" where
  \<comment> \<open>\<open>if program.day != last_date\<close>: the date goes to both lists\<close>
  "day_boundary program s =
     (if Some (day program) \<noteq> last_date s
      then s\<lparr>last_date := Some (day program),
             new_enlaces := new_enlaces s @ [''# '' @ day program],
             new_titulos := new_titulos s @ [''# '' @ day program]\<rparr>
      else s)"

definition closest_tvg_id :: "string list \<Rightarrow> Event \<Rightarrow> string option" where
  "closest_tvg_id pool program =
     (if channel program = ''Movistar Plus+'' then Some ''M.Plus 1080''
      else find_closest_channel (channel program) pool)"

definition label :: "Event \<Rightarrow> string \<Rightarrow> string" where
  \<comment> \<open>\<open>f"{program.sport} {program.time} {program.event} ({name})"\<close>\<close>
  "label program name =
     sport program @ '' '' @ time program @ '' '' @ event program @ '' ('' @ name @ '')''"

definition no_match_link :: "Event \<Rightarrow> string" where
  "no_match_link program =
     ''# No matching channel for '' @ event program @ '', this was the channel: ''
       @ channel program"

definition no_match_title :: "Event \<Rightarrow> string" where
  "no_match_title program =
     sport program @ '' '' @ time program @ '' '' @ event program @ '' - No match for ''
       @ channel program"

definition append_row :: "string \<Rightarrow> string \<Rightarrow> prog_state \<Rightarrow> prog_state" where
  \<comment> \<open>\<open>new_enlaces.append(link)\<close> and \<open>new_titulos.append(title)\<close>\<close>
  "append_row link title s =
     s\<lparr>new_enlaces := new_enlaces s @ [link], new_titulos := new_titulos s @ [title]\<rparr>"

fun quality_loop ::
  "string list \<Rightarrow> (string \<rightharpoonup> string) \<Rightarrow> Event \<Rightarrow> string \<Rightarrow> string list
     \<Rightarrow> prog_state \<times> bool \<Rightarrow> py_error + prog_state \<times> bool" where
  \<comment> \<open>\<open>for quality in ["720", "1080"]\<close>, on the state and the flag \<open>found\<close>\<close>
  "quality_loop titulos enlaces program closest [] st = Inr st"
| "quality_loop titulos enlaces program closest (quality # qs) (s, found) =
     (if closest @ quality \<in> set titulos
      then case getitem enlaces (closest @ quality) of
             Inl e \<Rightarrow> Inl e
           | Inr link \<Rightarrow>
               quality_loop titulos enlaces program closest qs
                 (append_row link (label program (closest @ quality)) s, True)
      else quality_loop titulos enlaces program closest qs (s, found))"

definition unsuffixed :: 
  "string list \<Rightarrow> (string \<rightharpoonup> string) \<Rightarrow> Event \<Rightarrow> string
     \<Rightarrow> prog_state \<times> bool \<Rightarrow> py_error + prog_state \<times> bool" where
  \<comment> \<open>\<open>if closest_tvg_id in titulos\<close>\<close>
  "unsuffixed titulos enlaces program closest st =
     (case st of (s, found) \<Rightarrow>
        if closest \<in> set titulos
        then case getitem enlaces closest of
               Inl e \<Rightarrow> Inl e
             | Inr link \<Rightarrow> Inr (append_row link (label program closest) s, True)
        else Inr (s, found))"

definition program_step ::
  "string list \<Rightarrow> (string \<rightharpoonup> string) \<Rightarrow> string list \<Rightarrow> Event \<Rightarrow> prog_state
     \<Rightarrow> py_error + prog_state" where
  \<comment> \<open>The body of \<open>for program in self.tv_programs\<close>. \<open>if closest_tvg_id:\<close> is false
      for \<open>None\<close> and for the empty string; the \<open>if not found\<close> block stands inside it.\<close>
  "program_step titulos enlaces pool program s =
     (let s1 = day_boundary program s
      in case closest_tvg_id pool program of
           None \<Rightarrow> Inr s1
         | Some closest \<Rightarrow>
             if closest = [] then Inr s1
             else
               (case quality_loop titulos enlaces program closest [''720'', ''1080''] (s1, False) of
                  Inl e \<Rightarrow> Inl e
                | Inr st2 \<Rightarrow>
                    (case unsuffixed titulos enlaces program closest st2 of
                       Inl e \<Rightarrow> Inl e
                     | Inr (s3, found) \<Rightarrow>
                         if \<not> found
                         then Inr (append_row (no_match_link program) (no_match_title program) s3)
                         else Inr s3)))"

fun programs_loop ::
  "string list \<Rightarrow> (string \<rightharpoonup> string) \<Rightarrow> string list \<Rightarrow> Event list \<Rightarrow> prog_state
     \<Rightarrow> py_error + prog_state" where
  "programs_loop titulos enlaces pool [] s = Inr s"
| "programs_loop titulos enlaces pool (program # programs) s =
     (case program_step titulos enlaces pool program s of
        Inl e \<Rightarrow> Inl e
      | Inr s' \<Rightarrow> programs_loop titulos enlaces pool programs s')"

definition extract_program_links ::
  "Event list \<Rightarrow> string \<Rightarrow> py_error + string list \<times> string list" where
  \<comment> \<open>The first argument is \<open>self.tv_programs\<close>.\<close>
  "extract_program_links tv_programs html =
     (case title_index html of (enlaces, titulos) \<Rightarrow>
        (case programs_loop titulos enlaces (titulos_without_quality titulos) tv_programs
                \<lparr>new_enlaces = [], new_titulos = [], last_date = None\<rparr> of
           Inl e \<Rightarrow> Inl e
         | Inr s \<Rightarrow> Inr (new_enlaces s, new_titulos s)))"

section \<open>The channel list: \<open>extract_channel_links\<close>\<close>

fun channel_loop ::
  "(string \<times> string) list \<Rightarrow> string list \<times> string list
     \<Rightarrow> py_error + string list \<times> string list" where
  \<comment> \<open>\<open>for enlace, titulo in patrones\<close>, on the state \<open>(enlaces, titulos)\<close>;
      \<open>enlace.split("://")[1]\<close> raises when the split has one part only.\<close>
  "channel_loop [] st = Inr st"
| "channel_loop ((enlace, titulo) # patrones) (enlaces, titulos) =
     (let nuevo_enlace = replace enlace ''acestream://'' play_prefix
      in case split enlace ''://'' of
           _ # part # _ \<Rightarrow>
             channel_loop patrones
               (enlaces @ [nuevo_enlace], titulos @ [strip titulo @ '' '' @ last_n 4 part])
         | _ \<Rightarrow> Inl IndexError)"

definition extract_channel_links :: "string \<Rightarrow> py_error + string list \<times> string list" where
  "extract_channel_links html = channel_loop (findall html) ([], [])"

section \<open>The cache: \<open>load_cache\<close> and \<open>save_cache\<close>\<close>

text \<open>
  The cache is one JSON file, opened as UTF-8 text. A value of type \<open>json\<close> is what
  \<open>json.dump\<close> is given and what \<open>json.load\<close> returns. A file holds a text, or bytes
  that are not UTF-8 (\<open>Undecodable\<close>). The text that \<open>json.dump\<close> writes is modelled
  (\<open>dumps\<close>); what \<open>json.load\<close> makes of a text is a parameter of \<open>load_cache\<close>: a
  value, a \<open>JSONDecodeError\<close>, or another exception. The outcome of the write and of
  the read is part of the environment: \<open>open\<close> can raise \<open>IOError\<close> and leave the
  file as it was, or the write can raise it after \<open>open\<close> has truncated the file,
  leaving the characters written so far, the last of them possibly cut. For the
  values of type \<open>json\<close>, \<open>json.dump\<close> raises nothing of its own.
\<close>

datatype json = JString string | JList "json list" | JObject "(string \<times> json) list"

datatype file_content = Undecodable | Text string

datatype write_outcome = WriteOk | OpenFails | WriteFails nat bool

record filesystem =
  cache_file :: "file_content option"
  on_write :: write_outcome
  readable :: bool

datatype load_result = Parsed json | JSONDecodeError | OtherError

datatype load_error = UnicodeDecodeError | Escaped

definition load_cache :: "(string \<Rightarrow> load_result) \<Rightarrow> filesystem \<Rightarrow> load_error + json" where
  \<comment> \<open>\<open>{}\<close> for a missing file, an \<open>IOError\<close> or a \<open>JSONDecodeError\<close>; the \<open>except\<close>
      clause catches nothing else, so a file that is not UTF-8 raises
      \<open>UnicodeDecodeError\<close>, and whatever else \<open>json.load\<close> raises escapes too\<close>
  "load_cache json_load fs =
     (case cache_file fs of
        None \<Rightarrow> Inr (JObject [])
      | Some content \<Rightarrow>
          if \<not> readable fs then Inr (JObject [])
          else (case content of
                  Undecodable \<Rightarrow> Inl UnicodeDecodeError
                | Text t \<Rightarrow>
                    (case json_load t of
                       Parsed cache \<Rightarrow> Inr cache
                     | JSONDecodeError \<Rightarrow> Inr (JObject [])
                     | OtherError \<Rightarrow> Inl Escaped)))"

text \<open>
  \<open>json.dump(data, f, ensure_ascii=False, indent=4)\<close>: strings between double quotes,
  with the quote, the backslash and the characters below U+0020 escaped and every
  other character as it is; a non-empty list or dictionary with one item per line,
  indented by four spaces per level, the items separated by a comma, key and value by
  a colon and a space; \<open>[]\<close> and \<open>{}\<close> for the empty ones.
\<close>

definition hex_digit :: "nat \<Rightarrow> char" where
  "hex_digit n = ''0123456789abcdef'' ! n"

definition escape_char :: "char \<Rightarrow> string" where
  \<comment> \<open>\<open>ESCAPE_DCT\<close>: \<open>\"\<close>, \<open>\\\<close>, \<open>\b\<close>, \<open>\f\<close>, \<open>\n\<close>, \<open>\r\<close>, \<open>\t\<close>, and \<open>\u00xx\<close> for the other
      characters below U+0020\<close>
  "escape_char c =
     (if c = CHR 0x22 then [CHR 0x5C, CHR 0x22]
      else if c = CHR 0x5C then [CHR 0x5C, CHR 0x5C]
      else if c = CHR 0x08 then [CHR 0x5C, CHR ''b'']
      else if c = CHR 0x0C then [CHR 0x5C, CHR ''f'']
      else if c = CHR 0x0A then [CHR 0x5C, CHR ''n'']
      else if c = CHR 0x0D then [CHR 0x5C, CHR ''r'']
      else if c = CHR 0x09 then [CHR 0x5C, CHR ''t'']
      else if (of_char c :: nat) < 32
      then [CHR 0x5C, CHR ''u'', CHR ''0'', CHR ''0'',
            hex_digit ((of_char c :: nat) div 16), hex_digit ((of_char c :: nat) mod 16)]
      else [c])"

definition encode_basestring :: "string \<Rightarrow> string" where
  "encode_basestring s = [CHR 0x22] @ concat (map escape_char s) @ [CHR 0x22]"

definition newline_indent :: "nat \<Rightarrow> string" where
  "newline_indent level = CHR 0x0A # replicate (4 * level) CHR '' ''"

fun join :: "string \<Rightarrow> string list \<Rightarrow> string" where
  \<comment> \<open>\<open>sep.join(items)\<close>\<close>
  "join sep [] = []"
| "join sep [x] = x"
| "join sep (x # y # ys) = x @ sep @ join sep (y # ys)"

fun dumps_at :: "nat \<Rightarrow> json \<Rightarrow> string" where
  \<comment> \<open>the text of a value that stands at the given indent level\<close>
  "dumps_at level (JString s) = encode_basestring s"
| "dumps_at level (JList items) =
     (if items = [] then ''[]''
      else ''['' @ newline_indent (level + 1)
           @ join ('','' @ newline_indent (level + 1)) (map (dumps_at (level + 1)) items)
           @ newline_indent level @ '']'')"
| "dumps_at level (JObject members) =
     (if members = [] then ''{}''
      else ''{'' @ newline_indent (level + 1)
           @ join ('','' @ newline_indent (level + 1))
               (map (\<lambda>member. encode_basestring (fst member) @ '': ''
                                @ dumps_at (level + 1) (snd member)) members)
           @ newline_indent level @ ''}'')"

definition dumps :: "json \<Rightarrow> string" where
  "dumps data = dumps_at 0 data"

definition save_cache :: "json \<Rightarrow> filesystem \<Rightarrow> filesystem" where
  \<comment> \<open>an \<open>IOError\<close> is logged, not raised\<close>
  "save_cache data fs =
     (case on_write fs of
        WriteOk \<Rightarrow> fs\<lparr>cache_file := Some (Text (dumps data))\<rparr>
      | OpenFails \<Rightarrow> fs
      | WriteFails n torn \<Rightarrow>
          fs\<lparr>cache_file := Some (if torn then Undecodable else Text (take n (dumps data)))\<rparr>)"

definition cache_data ::
  "string list \<Rightarrow> string list \<Rightarrow> string list \<Rightarrow> string list \<Rightarrow> string \<Rightarrow> string \<Rightarrow> json" where
  \<comment> \<open>the dictionary that \<open>update_list\<close> builds, saves and returns\<close>
  "cache_data enlaces_eventos titulos_eventos enlaces_canal titulos_canal origen fecha =
     JObject [(''enlaces_eventos'', JList (map JString enlaces_eventos)),
              (''titulos_eventos'', JList (map JString titulos_eventos)),
              (''enlaces_canal'', JList (map JString enlaces_canal)),
              (''titulos_canal'', JList (map JString titulos_canal)),
              (''origen'', JString origen),
              (''fecha'', JString fecha)]"

section \<open>The acquisition pipeline: \<open>update_list\<close>\<close>

text \<open>
  The network is the environment: what \<open>fetch_proxies\<close> returns (the empty list when
  its request fails), and for each URL and proxy what the request of
  \<open>get_web_content\<close> gives, the body or \<open>None\<close> for a \<open>RequestException\<close>. The model
  returns, besides the result, the trace of what the run did on the network and what
  it notified through \<open>dialog_interface\<close>, in order.
\<close>

record proxy_entry =
  \<comment> \<open>one element of the list under \<open>proxies\<close>, with its \<open>proxy\<close> key as the format of
      the list has it (\<open>proxy['proxy']\<close> is read unguarded) and what
      \<open>proxy.get('ip_data')\<close> returns\<close>
  proxy :: string
  ip_data :: "(string \<times> string) list option"

record network =
  proxies_response :: "proxy_entry list"
  web :: "string \<Rightarrow> string option \<Rightarrow> string option"

datatype action =
    FetchProxies string
  | Request string "string option"
  | Notification string string

definition PROXIES_URL :: string where
  "PROXIES_URL = ''https://api.proxyscrape.com/v4/free-proxy-list/get?request=display_proxies&proxy_format=protocolipport&format=json''"

definition url_selected :: string where
  \<comment> \<open>\<open>selection = 0\<close>\<close>
  "url_selected = ''https://elcano.top''"

definition secondary_url :: string where
  "secondary_url = ''https://viendoelfutbolporlaface.pages.dev/''"

fun filter_asian_proxies :: "proxy_entry list \<Rightarrow> string list" where
  \<comment> \<open>\<open>if ip_data and ip_data.get('continentCode') == 'AS'\<close>\<close>
  "filter_asian_proxies [] = []"
| "filter_asian_proxies (p # proxies) =
     (case ip_data p of
        None \<Rightarrow> filter_asian_proxies proxies
      | Some d \<Rightarrow>
          if d \<noteq> [] \<and> map_of d ''continentCode'' = Some ''AS''
          then proxy p # filter_asian_proxies proxies
          else filter_asian_proxies proxies)"

definition used_proxy :: "string option \<Rightarrow> string option" where
  \<comment> \<open>\<open>if proxy:\<close> in \<open>get_web_content\<close>: an empty proxy string is no proxy\<close>
  "used_proxy p = (case p of None \<Rightarrow> None | Some x \<Rightarrow> if x = [] then None else Some x)"

definition get_web_content :: "network \<Rightarrow> string \<Rightarrow> string option \<Rightarrow> string option" where
  "get_web_content net url p = web net url (used_proxy p)"

definition truthy :: "string option \<Rightarrow> bool" where
  \<comment> \<open>\<open>if content\<close>: neither \<open>None\<close> nor the empty string\<close>
  "truthy content = (case content of None \<Rightarrow> False | Some text \<Rightarrow> text \<noteq> [])"

definition text_of :: "string option \<Rightarrow> string" where
  \<comment> \<open>the text of a content; it is only read after \<open>if content\<close> has passed\<close>
  "text_of content = (case content of None \<Rightarrow> [] | Some text \<Rightarrow> text)"

definition notify :: "bool \<Rightarrow> string \<Rightarrow> string \<Rightarrow> action list" where
  \<comment> \<open>\<open>if dialog_interface: dialog_interface.notification(heading, message)\<close>\<close>
  "notify dialog heading message = (if dialog then [Notification heading message] else [])"

fun proxy_loop ::
  "bool \<Rightarrow> network \<Rightarrow> string list \<Rightarrow> action list \<Rightarrow> string option \<times> bool \<times> action list" where
  \<comment> \<open>\<open>for proxy in asian_proxies: ... else: ...\<close>: the content, whether the loop ran to
      its end without \<open>break\<close> (the \<open>else\<close> branch), and the trace\<close>
  "proxy_loop dialog net [] trace = (None, True, trace)"
| "proxy_loop dialog net (p # proxies) trace =
     (let trace' = trace @ notify dialog ''Proxy'' (''Trying proxy: '' @ p)
                     @ [Request url_selected (used_proxy (Some p))];
          content = get_web_content net url_selected (Some p)
      in if truthy content then (content, False, trace')
         else proxy_loop dialog net proxies trace')"

definition finish ::
  "Event list \<Rightarrow> string \<Rightarrow> string \<Rightarrow> action list \<Rightarrow> filesystem
     \<Rightarrow> (py_error + json) \<times> action list \<times> filesystem" where
  \<comment> \<open>the tail of \<open>update_list\<close>, from the two extractions on\<close>
  "finish tv_programs content now trace fs =
     (case extract_program_links tv_programs content of
        Inl e \<Rightarrow> (Inl e, trace, fs)
      | Inr (enlaces_eventos, titulos_eventos) \<Rightarrow>
          (case extract_channel_links content of
             Inl e \<Rightarrow> (Inl e, trace, fs)
           | Inr (enlaces_canal, titulos_canal) \<Rightarrow>
               let data = cache_data enlaces_eventos titulos_eventos enlaces_canal titulos_canal
                            ''Servidor Principal'' now
               in (Inr data, trace, save_cache data fs)))"

definition update_list ::
  "bool \<Rightarrow> network \<Rightarrow> Event list \<Rightarrow> string \<Rightarrow> filesystem
     \<Rightarrow> (py_error + json) \<times> action list \<times> filesystem" where
  \<comment> \<open>The arguments: whether a \<open>dialog_interface\<close> is given, the network,
      \<open>self.tv_programs\<close>, what \<open>time.strftime\<close> returns, and the file system.\<close>
  "update_list dialog net tv_programs now fs =
     (let trace0 = [FetchProxies PROXIES_URL];
          proxies = proxies_response net
      in if proxies = []
         then (Inr (JObject []), trace0 @ notify dialog ''Error'' ''No proxies found.'', fs)
         else
           let asian_proxies = filter_asian_proxies proxies;
               trace1 = trace0 @ notify dialog ''Connection'' ''Attempting to connect without proxy''
                          @ [Request url_selected None];
               content = get_web_content net url_selected None;
               (content2, exhausted, trace2) =
                 (if \<not> truthy content
                  then proxy_loop dialog net asian_proxies
                         (trace1 @ notify dialog ''Proxy'' ''Attempting to connect using proxies'')
                  else (content, False, trace1))
           in if exhausted
              then (Inr (JObject []),
                    trace2 @ notify dialog ''Error'' ''Failed to retrieve content with all proxies.'',
                    fs)
              else if \<not> truthy content2
              then
                (let trace3 = trace2 @ [Request secondary_url None];
                     content3 = get_web_content net secondary_url None
                 in if \<not> truthy content3
                    then (Inr (JObject []),
                          trace3 @ notify dialog ''Error'' ''Failed to retrieve content from secondary URL.'',
                          fs)
                    else finish tv_programs (text_of content3) now trace3 fs)
              else finish tv_programs (text_of content2) now trace2 fs)"

section \<open>The reconciled entries\<close>

text \<open>
  The rows that \<open>extract_program_links\<close> appends, as the tagged entries of the
  specification: \<open>entry_link\<close> and \<open>entry_title\<close> are the strings the code appends to
  \<open>new_enlaces\<close> and \<open>new_titulos\<close> for an entry. \<open>reconcile\<close> lists the entries of a
  run; that the two lists the code returns are its links and titles is proved below
  (\<open>extract_program_links_reconcile\<close>).
\<close>

datatype ReconciledEntry =
    DaySeparator string
  | PlayableItem string string
  | UnmatchedPlaceholder Event

fun entry_link :: "ReconciledEntry \<Rightarrow> string" where
  "entry_link (DaySeparator d) = ''# '' @ d"
| "entry_link (PlayableItem lbl link) = link"
| "entry_link (UnmatchedPlaceholder program) = no_match_link program"

fun entry_title :: "ReconciledEntry \<Rightarrow> string" where
  "entry_title (DaySeparator d) = ''# '' @ d"
| "entry_title (PlayableItem lbl link) = lbl"
| "entry_title (UnmatchedPlaceholder program) = no_match_title program"

definition emit :: "ReconciledEntry list \<Rightarrow> prog_state \<Rightarrow> prog_state" where
  "emit entries s =
     s\<lparr>new_enlaces := new_enlaces s @ map entry_link entries,
       new_titulos := new_titulos s @ map entry_title entries\<rparr>"

definition day_entries :: "string option \<Rightarrow> Event \<Rightarrow> ReconciledEntry list" where
  "day_entries prev program =
     (if Some (day program) \<noteq> prev then [DaySeparator (day program)] else [])"

definition playable ::
  "string list \<Rightarrow> (string \<rightharpoonup> string) \<Rightarrow> Event \<Rightarrow> string \<Rightarrow> ReconciledEntry list" where
  "playable titulos enlaces program name =
     (if name \<in> set titulos then [PlayableItem (label program name) (the (enlaces name))]
      else [])"

definition variant_entries ::
  "string list \<Rightarrow> (string \<rightharpoonup> string) \<Rightarrow> Event \<Rightarrow> string \<Rightarrow> ReconciledEntry list" where
  "variant_entries titulos enlaces program base =
     concat (map (playable titulos enlaces program) [base @ ''720'', base @ ''1080'', base])"

definition event_entries ::
  "string list \<Rightarrow> (string \<rightharpoonup> string) \<Rightarrow> string list \<Rightarrow> Event \<Rightarrow> ReconciledEntry list" where
  "event_entries titulos enlaces pool program =
     (case closest_tvg_id pool program of
        None \<Rightarrow> []
      | Some base \<Rightarrow>
          if base = [] then []
          else if variant_entries titulos enlaces program base = []
               then [UnmatchedPlaceholder program]
               else variant_entries titulos enlaces program base)"

fun reconcile_from ::
  "string list \<Rightarrow> (string \<rightharpoonup> string) \<Rightarrow> string list \<Rightarrow> string option \<Rightarrow> Event list
     \<Rightarrow> ReconciledEntry list" where
  "reconcile_from titulos enlaces pool prev [] = []"
| "reconcile_from titulos enlaces pool prev (program # programs) =
     day_entries prev program @ event_entries titulos enlaces pool program
       @ reconcile_from titulos enlaces pool (Some (day program)) programs"

definition reconcile :: "Event list \<Rightarrow> string \<Rightarrow> ReconciledEntry list" where
  "reconcile tv_programs html =
     (case title_index html of (enlaces, titulos) \<Rightarrow>
        reconcile_from titulos enlaces (titulos_without_quality titulos) None tv_programs)"

fun separators :: "ReconciledEntry list \<Rightarrow> string list" where
  "separators [] = []"
| "separators (DaySeparator d # es) = d # separators es"
| "separators (e # es) = separators es"

definition dict_ok :: "string list \<Rightarrow> (string \<rightharpoonup> string) \<Rightarrow> bool" where
  "dict_ok titulos enlaces = (\<forall>t \<in> set titulos. enlaces t \<noteq> None)"

text \<open>The rows of \<open>extract_channel_links\<close>: the link and the title it appends for one
  anchor, the title ending in the last four characters of what stands between the
  first \<open>://\<close> and the next.\<close>

definition channel_link :: "string \<times> string \<Rightarrow> string" where
  "channel_link patron = replace (fst patron) ''acestream://'' play_prefix"

definition channel_title :: "string \<times> string \<Rightarrow> string" where
  "channel_title patron =
     strip (snd patron) @ '' ''
       @ last_n 4 (hd (split (drop (length ''acestream://'') (fst patron)) ''://''))"

section \<open>Sample inputs\<close>

text \<open>Concrete pages, events and states, for the closed instances of the claims.\<close>

definition anchor :: "string \<Rightarrow> string \<Rightarrow> string" where
  \<comment> \<open>the markup of one stream anchor\<close>
  "anchor ident titulo =
     anchor_open @ ''acestream://'' @ ident @ [dquote] @ ''>'' @ titulo @ ''</a>''"

definition sample_event :: "string \<Rightarrow> string \<Rightarrow> Event" where
  "sample_event d c =
     \<lparr>day = d, time = ''21:00'', event = ''Betis - Sevilla'', channel = c, sport = ''Futbol''\<rparr>"

definition init_state :: prog_state where
  \<comment> \<open>the state before the loop over the programs\<close>
  "init_state = \<lparr>new_enlaces = [], new_titulos = [], last_date = None\<rparr>"

definition madrid_page :: string where
  "madrid_page = ''<ul><li>'' @ anchor ''aaaa1111'' ''RealMadridTV720'' @ ''</li><li>''
                 @ anchor ''bbbb2222'' ''RealMadridTV1080'' @ ''</li></ul>''"

definition dazn_page :: string where
  "dazn_page = anchor ''cccc3333'' ''DAZN''"

definition quality_page :: string where
  "quality_page = anchor ''aaaa1111'' ''DAZN 1 720'' @ anchor ''bbbb2222'' ''GOL 1080''"

definition empty_disk :: filesystem where
  "empty_disk = \<lparr>cache_file = None, on_write = WriteOk, readable = True\<rparr>"





definition mirror_only :: network where
  \<comment> \<open>one Asian proxy; only the secondary URL, asked without proxy, answers\<close>
  "mirror_only =
     \<lparr>proxies_response =
        [\<lparr>proxy = ''http://10.0.0.1:8080'', ip_data = Some [(''continentCode'', ''AS'')]\<rparr>],
      web = (\<lambda>url p. if url = secondary_url \<and> p = None then Some dazn_page else None)\<rparr>"

section \<open>Facts about \<open>replace\<close>\<close>











section \<open>Facts about the schedule scraper\<close>

fun firsts :: "event_id set \<Rightarrow> Event list \<Rightarrow> Event list" where
  "firsts seen [] = []"
| "firsts seen (c # cs) =
     (if event_id c \<in> seen then firsts seen cs else c # firsts (insert (event_id c) seen) cs)"

lemma events_loop_firsts:
  "events_loop d evs (acc, seen)
     = (acc @ firsts seen (map (row_event d) evs), seen \<union> event_id ` row_event d ` set evs)"
  by (induction evs arbitrary: acc seen) (auto simp: Let_def)

lemma firsts_append:
  "firsts seen (xs @ ys) = firsts seen xs @ firsts (seen \<union> event_id ` set xs) ys"
  by (induction xs arbitrary: seen) (auto simp: insert_absorb)

lemma sections_loop_firsts:
  "fst (sections_loop secs (acc, seen)) = acc @ firsts seen (scraped_rows secs)"
proof (induction secs arbitrary: acc seen)
  case Nil
  then show ?case by simp
next
  case (Cons sec secs)
  show ?case
  proof (cases "day_span sec")
    case None
    with Cons show ?thesis by simp
  next
    case (Some t)
    with Cons show ?thesis
      by (simp add: events_loop_firsts firsts_append image_image)
  qed
qed

lemma firsts_fresh: "event_id ` set (firsts seen cs) \<inter> seen = {}"
  by (induction cs arbitrary: seen) auto

lemma firsts_distinct: "distinct (map event_id (firsts seen cs))"
proof (induction cs arbitrary: seen)
  case Nil
  then show ?case by simp
next
  case (Cons c cs)
  have "event_id c \<notin> event_id ` set (firsts (insert (event_id c) seen) cs)"
    using firsts_fresh [of "insert (event_id c) seen" cs] by auto
  with Cons show ?case by simp
qed

lemma firsts_by_index:
  "firsts seen cs
     = map (nth cs)
         (filter (\<lambda>i. event_id (cs ! i) \<notin> seen \<union> event_id ` set (take i cs)) [0..<length cs])"
proof (induction cs arbitrary: seen)
  case Nil
  then show ?case by simp
next
  case (Cons c cs)
  have idx: "[0..<length (c # cs)] = 0 # map Suc [0..<length cs]"
    by (simp add: upt_conv_Cons map_Suc_upt del: upt_Suc)
  show ?case
  proof (cases "event_id c \<in> seen")
    case True
    then have eq: "(y \<notin> seen \<and> y \<noteq> event_id c \<and> Q) = (y \<notin> seen \<and> Q)" for y Q
      by auto
    from True Cons [of seen] show ?thesis
      unfolding idx by (simp add: filter_map comp_def eq)
  next
    case False
    with Cons [of "insert (event_id c) seen"] show ?thesis
      unfolding idx by (simp add: filter_map comp_def conj_left_commute)
  qed
qed

section \<open>Facts about the reconciler\<close>

lemma links_loop_dict_ok:
  "dict_ok titulos enlaces \<Longrightarrow> links_loop patrones (enlaces, titulos) = (enlaces', titulos')
     \<Longrightarrow> dict_ok titulos' enlaces'"
proof (induction patrones arbitrary: enlaces titulos)
  case Nil
  then show ?case by simp
next
  case (Cons p patrones)
  obtain enlace titulo where p: "p = (enlace, titulo)" by (cases p)
  let ?enlaces = "enlaces(strip titulo \<mapsto> replace enlace ''acestream://'' play_prefix)"
  have ok: "dict_ok (titulos @ [strip titulo]) ?enlaces"
    using Cons.prems(1) by (auto simp: dict_ok_def)
  have "links_loop patrones (?enlaces, titulos @ [strip titulo]) = (enlaces', titulos')"
    using Cons.prems(2) by (simp add: p Let_def)
  from Cons.IH [OF ok this] show ?case .
qed

lemma title_index_dict_ok:
  assumes "title_index html = (enlaces, titulos)"
  shows "dict_ok titulos enlaces"
proof -
  have "dict_ok [] Map.empty" by (simp add: dict_ok_def)
  from links_loop_dict_ok [OF this] assms show ?thesis
    by (simp add: title_index_def)
qed

lemma emit_Nil [simp]: "emit [] s = s"
  by (simp add: emit_def)

lemma emit_append: "emit (xs @ ys) s = emit ys (emit xs s)"
  by (simp add: emit_def)

lemma emit_last_date [simp]: "last_date (emit es s) = last_date s"
  by (simp add: emit_def)

lemma day_boundary_emit:
  "day_boundary program s = (emit (day_entries (last_date s) program) s)\<lparr>last_date := Some (day program)\<rparr>"
  by (auto simp: day_boundary_def day_entries_def emit_def)

lemma getitem_ok: "dict_ok titulos enlaces \<Longrightarrow> name \<in> set titulos \<Longrightarrow> getitem enlaces name = Inr (the (enlaces name))"
  by (auto simp: dict_ok_def getitem_def split: option.splits)

lemma quality_loop_entries:
  assumes "dict_ok titulos enlaces"
  shows "quality_loop titulos enlaces program closest qs (s, found)
       = Inr (emit (concat (map (\<lambda>q. playable titulos enlaces program (closest @ q)) qs)) s,
              found \<or> concat (map (\<lambda>q. playable titulos enlaces program (closest @ q)) qs) \<noteq> [])"
proof (induction qs arbitrary: s found)
  case Nil
  then show ?case by simp
next
  case (Cons q qs)
  show ?case
  proof (cases "closest @ q \<in> set titulos")
    case True
    then show ?thesis
      using getitem_ok [OF assms True]
      by (simp add: Cons playable_def emit_def append_row_def)
  next
    case False
    then show ?thesis
      by (simp add: Cons playable_def)
  qed
qed

lemma unsuffixed_entries:
  assumes "dict_ok titulos enlaces"
  shows "unsuffixed titulos enlaces program closest (s, found)
       = Inr (emit (playable titulos enlaces program closest) s,
              found \<or> playable titulos enlaces program closest \<noteq> [])"
proof (cases "closest \<in> set titulos")
  case True
  then show ?thesis
    using getitem_ok [OF assms True]
    by (simp add: unsuffixed_def playable_def emit_def append_row_def)
next
  case False
  then show ?thesis
    by (simp add: unsuffixed_def playable_def)
qed

lemma variant_step:
  assumes "dict_ok titulos enlaces" and "closest_tvg_id pool program = Some base" and "base \<noteq> []"
  shows "program_step titulos enlaces pool program s
       = Inr (emit (if variant_entries titulos enlaces program base = []
                    then [UnmatchedPlaceholder program]
                    else variant_entries titulos enlaces program base)
                (day_boundary program s))"
proof -
  let ?v = "variant_entries titulos enlaces program base"
  let ?q = "concat (map (\<lambda>q. playable titulos enlaces program (base @ q)) [''720'', ''1080''])"
  have v: "?v = ?q @ playable titulos enlaces program base"
    by (simp add: variant_entries_def)
  have "program_step titulos enlaces pool program s
      = (if \<not> (?q \<noteq> [] \<or> playable titulos enlaces program base \<noteq> [])
         then Inr (append_row (no_match_link program) (no_match_title program)
                     (emit (playable titulos enlaces program base) (emit ?q (day_boundary program s))))
         else Inr (emit (playable titulos enlaces program base) (emit ?q (day_boundary program s))))"
    using assms(2,3)
    by (simp only: program_step_def Let_def quality_loop_entries [OF assms(1)]
        unsuffixed_entries [OF assms(1)] option.case sum.case prod.case if_False simp_thms)
  also have "\<dots> = Inr (emit (if ?v = [] then [UnmatchedPlaceholder program] else ?v)
                          (day_boundary program s))"
    unfolding v by (auto simp: emit_def append_row_def)
  finally show ?thesis .
qed

lemma no_base_step:
  assumes "closest_tvg_id pool program = None \<or> closest_tvg_id pool program = Some []"
  shows "program_step titulos enlaces pool program s = Inr (day_boundary program s)"
  using assms by (auto simp: program_step_def)

lemma program_step_entries:
  assumes "dict_ok titulos enlaces"
  shows "program_step titulos enlaces pool program s
       = Inr (emit (event_entries titulos enlaces pool program) (day_boundary program s))"
proof (cases "closest_tvg_id pool program")
  case None
  then show ?thesis
    by (simp add: no_base_step event_entries_def)
next
  case (Some base)
  then show ?thesis
    using variant_step [OF assms Some] no_base_step [of pool program titulos enlaces s]
    by (cases "base = []") (simp_all add: event_entries_def)
qed

lemma programs_loop_entries:
  assumes "dict_ok titulos enlaces"
  shows "\<exists>s'. programs_loop titulos enlaces pool programs s = Inr s'
           \<and> new_enlaces s' = new_enlaces s
                @ map entry_link (reconcile_from titulos enlaces pool (last_date s) programs)
           \<and> new_titulos s' = new_titulos s
                @ map entry_title (reconcile_from titulos enlaces pool (last_date s) programs)"
proof (induction programs arbitrary: s)
  case Nil
  then show ?case by simp
next
  case (Cons program programs)
  let ?s1 = "emit (event_entries titulos enlaces pool program) (day_boundary program s)"
  have ld: "last_date ?s1 = Some (day program)"
    by (simp add: day_boundary_emit)
  from Cons [of ?s1] show ?case
    by (auto simp: program_step_entries [OF assms] ld day_boundary_emit emit_def)
qed

lemma extract_program_links_reconcile:
  "extract_program_links tv_programs html
     = Inr (map entry_link (reconcile tv_programs html), map entry_title (reconcile tv_programs html))"
proof -
  obtain enlaces titulos where ti: "title_index html = (enlaces, titulos)"
    by (cases "title_index html")
  from programs_loop_entries [OF title_index_dict_ok [OF ti]]
  obtain s' where "programs_loop titulos enlaces (titulos_without_quality titulos) tv_programs
        \<lparr>new_enlaces = [], new_titulos = [], last_date = None\<rparr> = Inr s'"
    and "new_enlaces s' = map entry_link (reconcile_from titulos enlaces (titulos_without_quality titulos) None tv_programs)"
    and "new_titulos s' = map entry_title (reconcile_from titulos enlaces (titulos_without_quality titulos) None tv_programs)"
    by fastforce
  then show ?thesis
    by (simp add: extract_program_links_def reconcile_def ti)
qed

lemma separators_append: "separators (xs @ ys) = separators xs @ separators ys"
  by (induction xs rule: separators.induct) auto

lemma separators_event_entries: "separators (event_entries titulos enlaces pool program) = []"
  by (auto simp: event_entries_def variant_entries_def playable_def split: option.splits)

lemma separators_reconcile_from:
  "separators (reconcile_from titulos enlaces pool prev programs)
     = (case prev of None \<Rightarrow> remdups_adj (map day programs)
        | Some d \<Rightarrow> tl (remdups_adj (d # map day programs)))"
proof (induction programs arbitrary: prev)
  case Nil
  then show ?case by (simp split: option.splits)
next
  case (Cons program programs)
  then show ?case
    by (auto simp: separators_append separators_event_entries day_entries_def split: option.splits)
qed

section \<open>Facts about the channel list and the pipeline\<close>

lemma split_not_Nil: "split s sep \<noteq> []"
  by (subst split.simps) (auto split: prod.splits option.splits)

lemma split_acestream:
  "split (''acestream://'' @ ident) ''://'' = ''acestream'' # split ident ''://''"
  by (subst split.simps) simp

lemma match_anchor_enlace:
  "match_anchor s = Some ((enlace, titulo), rest) \<Longrightarrow> prefix ''acestream://'' enlace"
  by (auto simp: match_anchor_def Let_def split: if_splits option.splits)

lemma findall_from_enlace:
  "(enlace, titulo) \<in> set (findall_from skip s) \<Longrightarrow> prefix ''acestream://'' enlace"
  by (induction skip s rule: findall_from.induct)
     (auto split: option.splits dest: match_anchor_enlace)

lemma channel_loop_rows:
  assumes "\<forall>patron \<in> set patrones. prefix ''acestream://'' (fst patron)"
  shows "channel_loop patrones (enlaces, titulos)
       = Inr (enlaces @ map channel_link patrones, titulos @ map channel_title patrones)"
  using assms
proof (induction patrones arbitrary: enlaces titulos)
  case Nil
  then show ?case by simp
next
  case (Cons patron patrones)
  obtain enlace titulo where p: "patron = (enlace, titulo)" by (cases patron)
  from Cons.prems obtain ident where e: "enlace = ''acestream://'' @ ident"
    by (auto simp: p prefix_def)
  obtain part parts where sp: "split ident ''://'' = part # parts"
    using split_not_Nil [of ident "''://''"] by (cases "split ident ''://''") auto
  have "split enlace ''://'' = ''acestream'' # part # parts"
    unfolding e split_acestream sp ..
  moreover have "channel_title patron = strip titulo @ '' '' @ last_n 4 part"
    by (simp add: channel_title_def p e sp)
  ultimately show ?case
    using Cons by (simp add: p channel_link_def Let_def)
qed

lemma extract_channel_links_rows:
  "extract_channel_links html
     = Inr (map channel_link (findall html), map channel_title (findall html))"
proof -
  have "\<forall>patron \<in> set (findall html). prefix ''acestream://'' (fst patron)"
    using findall_from_enlace [of _ _ 0 html] by (auto simp: findall_def)
  from channel_loop_rows [OF this, of "[]" "[]"] show ?thesis
    by (simp add: extract_channel_links_def)
qed

lemma proxy_loop_content:
  "proxy_loop dialog net proxies trace = (content, exhausted, trace')
     \<Longrightarrow> (\<not> exhausted \<longrightarrow> truthy content)
       \<and> (Request secondary_url None \<in> set trace' \<longrightarrow> Request secondary_url None \<in> set trace)
       \<and> (\<exists>more. trace' = trace @ more)"
proof (induction proxies arbitrary: trace)
  case Nil
  then show ?case by simp
next
  case (Cons p proxies)
  let ?trace = "trace @ notify dialog ''Proxy'' (''Trying proxy: '' @ p)
                     @ [Request url_selected (used_proxy (Some p))]"
  have ne: "Request secondary_url None \<notin> set (notify dialog ''Proxy'' (''Trying proxy: '' @ p)
                     @ [Request url_selected (used_proxy (Some p))])"
    by (simp add: notify_def secondary_url_def url_selected_def)
  show ?case
  proof (cases "truthy (get_web_content net url_selected (Some p))")
    case True
    with Cons.prems ne show ?thesis
      by (auto simp: Let_def)
  next
    case False
    with Cons.prems have "proxy_loop dialog net proxies ?trace = (content, exhausted, trace')"
      by (simp add: Let_def)
    from Cons.IH [OF this] ne show ?thesis
      by auto
  qed
qed

lemma finish_trace: "fst (snd (finish tv_programs content now trace fs)) = trace"
  by (auto simp: finish_def Let_def split: sum.splits prod.splits)

lemma torn_write_raises:
  assumes "on_write fs = WriteFails n True" and "readable fs"
  shows "load_cache json_load (save_cache data fs) = Inl UnicodeDecodeError"
  using assms by (simp add: load_cache_def save_cache_def)

section \<open>The claims\<close>



text \<open>
  C7. The schedule parser never yields two events with the same
  (day, time, title, channel) tuple: of the rows it visits, a row survives exactly
  when no earlier row has its tuple, so rows with the same tuple give one event, the
  first of them, and the survivors keep their relative order.
\<close>

theorem get_tv_programs_dedup:
  "distinct (map event_id (get_tv_programs response))
   \<and> get_tv_programs (Some day_sections)
       = (let rows = scraped_rows (drop 1 day_sections)
          in map (nth rows)
               (filter (\<lambda>i. event_id (rows ! i) \<notin> event_id ` set (take i rows))
                  [0..<length rows]))"
proof
  show "distinct (map event_id (get_tv_programs response))"
    by (cases response) (simp_all add: get_tv_programs_def sections_loop_firsts firsts_distinct)
  show "get_tv_programs (Some day_sections)
       = (let rows = scraped_rows (drop 1 day_sections)
          in map (nth rows)
               (filter (\<lambda>i. event_id (rows ! i) \<notin> event_id ` set (take i rows))
                  [0..<length rows]))"
    using firsts_by_index [of "{}" "scraped_rows (drop 1 day_sections)"]
    by (simp add: get_tv_programs_def sections_loop_firsts Let_def)
qed

text \<open>
  C1 (the code does otherwise). An event whose channel is not the alias and resembles
  no pool entry gets no row at all: \<open>find_closest_channel\<close> returns \<open>None\<close>, and the
  \<open>if not found\<close> block that appends the placeholder stands inside
  \<open>if closest_tvg_id:\<close>. On \<open>quality_page\<close>, a Monday event on "Teledeporte" yields the
  day separator and nothing else.
\<close>

theorem unmatched_event_emits_no_row:
  "titulos_without_quality (snd (title_index quality_page)) = [''DAZN 1 '', ''GOL '']
   \<and> ratio ''DAZN 1 '' ''Teledeporte'' < 1 / 2
   \<and> ratio ''GOL '' ''Teledeporte'' < 1 / 2
   \<and> find_closest_channel ''Teledeporte''
       (titulos_without_quality (snd (title_index quality_page)))
     = None
   \<and> extract_program_links [sample_event ''Lunes'' ''Teledeporte'']
         quality_page
       = Inr ([''# Lunes''], [''# Lunes''])"
  by code_simp

text \<open>
  C4, as the code has it. A separator is appended whenever an event's day differs
  from the day of the event before it, so the separators are the days of the maximal
  runs of consecutive events of one day, in input order. When the events of each day
  are contiguous, that is exactly one separator per distinct day.
\<close>

theorem day_separator_per_run:
  "extract_program_links tv_programs html
     = Inr (map entry_link (reconcile tv_programs html), map entry_title (reconcile tv_programs html))
   \<and> separators (reconcile tv_programs html) = remdups_adj (map day tv_programs)
   \<and> (distinct (remdups_adj (map day tv_programs))
        \<longrightarrow> distinct (separators (reconcile tv_programs html))
            \<and> set (separators (reconcile tv_programs html)) = day ` set tv_programs)"
proof -
  have "separators (reconcile tv_programs html) = remdups_adj (map day tv_programs)"
    by (simp add: reconcile_def separators_reconcile_from split: prod.splits)
  then show ?thesis
    by (simp add: extract_program_links_reconcile)
qed

text \<open>
  C4, an instance: two Monday events followed by a Tuesday event give the separators
  Monday, Tuesday.
\<close>

theorem day_separator_per_run_witness:
  "distinct (remdups_adj (map day [sample_event ''Lunes'' ''DAZN'', sample_event ''Lunes'' ''GOL'',
                                   sample_event ''Martes'' ''DAZN'']))
   \<and> separators (reconcile [sample_event ''Lunes'' ''DAZN'', sample_event ''Lunes'' ''GOL'',
                            sample_event ''Martes'' ''DAZN''] dazn_page) = [''Lunes'', ''Martes'']"
  using day_separator_per_run [of "[sample_event ''Lunes'' ''DAZN'', sample_event ''Lunes'' ''GOL'',
                                   sample_event ''Martes'' ''DAZN'']" dazn_page]
  by (simp add: sample_event_def)

text \<open>
  C4 as stated fails when days interleave: Monday, Tuesday, Monday gives three
  separators, two of them for Monday.
\<close>

theorem interleaved_days_counterexample:
  "separators (reconcile [sample_event ''Lunes'' ''DAZN'', sample_event ''Martes'' ''DAZN'',
                          sample_event ''Lunes'' ''DAZN''] dazn_page)
     = [''Lunes'', ''Martes'', ''Lunes'']
   \<and> extract_program_links [sample_event ''Lunes'' ''DAZN'', sample_event ''Martes'' ''DAZN'',
                          sample_event ''Lunes'' ''DAZN''] dazn_page
     = Inr ([''# Lunes'', ''plugin://script.module.horus?action=play&id=cccc3333'',
             ''# Martes'', ''plugin://script.module.horus?action=play&id=cccc3333'',
             ''# Lunes'', ''plugin://script.module.horus?action=play&id=cccc3333''],
            [''# Lunes'', ''Futbol 21:00 Betis - Sevilla (DAZN)'',
             ''# Martes'', ''Futbol 21:00 Betis - Sevilla (DAZN)'',
             ''# Lunes'', ''Futbol 21:00 Betis - Sevilla (DAZN)''])"
  by code_simp

text \<open>
  C5. An event on "Movistar Plus+" has the base title "M.Plus 1080" whatever the pool
  holds, with no similarity scoring; when neither "M.Plus 1080720" nor
  "M.Plus 10801080" nor "M.Plus 1080" is a raw title, the step appends, after the day
  separator if one is due, exactly one placeholder row for the event.
\<close>

theorem movistar_alias:
  assumes "channel program = ''Movistar Plus+''"
    and "''M.Plus 1080720'' \<notin> set titulos"
    and "''M.Plus 10801080'' \<notin> set titulos"
    and "''M.Plus 1080'' \<notin> set titulos"
  shows "closest_tvg_id pool program = Some ''M.Plus 1080''
       \<and> program_step titulos enlaces pool program s
           = Inr (append_row (no_match_link program) (no_match_title program)
                    (day_boundary program s))"
  using assms by (simp add: closest_tvg_id_def program_step_def unsuffixed_def)

text \<open>
  C5, an instance: on \<open>quality_page\<close>, which has no "M.Plus 1080" title.
\<close>

theorem movistar_alias_witness:
  "closest_tvg_id (titulos_without_quality (snd (title_index quality_page)))
       (sample_event ''Lunes'' ''Movistar Plus+'') = Some ''M.Plus 1080''
   \<and> program_step (snd (title_index quality_page)) (fst (title_index quality_page))
        (titulos_without_quality (snd (title_index quality_page)))
        (sample_event ''Lunes'' ''Movistar Plus+'') init_state
       = Inr \<lparr>new_enlaces = [''# Lunes'',
                 ''# No matching channel for Betis - Sevilla, this was the channel: Movistar Plus+''],
              new_titulos = [''# Lunes'',
                 ''Futbol 21:00 Betis - Sevilla - No match for Movistar Plus+''],
              last_date = Some ''Lunes''\<rparr>"
proof -
  have T: "snd (title_index quality_page) = [''DAZN 1 720'', ''GOL 1080'']"
    by code_simp
  show ?thesis
    using movistar_alias [of "sample_event ''Lunes'' ''Movistar Plus+''"
        "snd (title_index quality_page)"
        "titulos_without_quality (snd (title_index quality_page))"
        "fst (title_index quality_page)" init_state]
    by (simp add: T sample_event_def init_state_def append_row_def day_boundary_def
        no_match_link_def no_match_title_def)
qed

text \<open>
  C6, for a non-empty base title. The step appends, after the day separator if one
  is due: a playable row for base+"720" if that is a raw title, then one for
  base+"1080" if that is a raw title, then one for the base itself if that is a raw
  title, each with the link the dictionary holds for that title and the label
  "sport time title (name)"; at most three rows; and the placeholder row when there
  is none.
\<close>

theorem variant_fan_out:
  fixes titulos enlaces program base
  defines "v \<equiv> variant_entries titulos enlaces program base"
  assumes "title_index html = (enlaces, titulos)"
    and "closest_tvg_id (titulos_without_quality titulos) program = Some base"
    and "base \<noteq> []"
  shows "program_step titulos enlaces (titulos_without_quality titulos) program s
           = Inr (emit (if v = [] then [UnmatchedPlaceholder program] else v)
                    (day_boundary program s))
       \<and> v = (if base @ ''720'' \<in> set titulos
               then [PlayableItem (label program (base @ ''720'')) (the (enlaces (base @ ''720'')))]
               else [])
            @ (if base @ ''1080'' \<in> set titulos
               then [PlayableItem (label program (base @ ''1080'')) (the (enlaces (base @ ''1080'')))]
               else [])
            @ (if base \<in> set titulos
               then [PlayableItem (label program base) (the (enlaces base))]
               else [])
       \<and> (\<forall>name \<in> set titulos. enlaces name \<noteq> None)
       \<and> length v \<le> 3"
proof -
  have ok: "dict_ok titulos enlaces"
    using assms(2) by (rule title_index_dict_ok)
  have step: "program_step titulos enlaces (titulos_without_quality titulos) program s
           = Inr (emit (if v = [] then [UnmatchedPlaceholder program] else v)
                    (day_boundary program s))"
    unfolding v_def using ok assms(3,4) by (rule variant_step)
  have shape: "v = (if base @ ''720'' \<in> set titulos
               then [PlayableItem (label program (base @ ''720'')) (the (enlaces (base @ ''720'')))]
               else [])
            @ (if base @ ''1080'' \<in> set titulos
               then [PlayableItem (label program (base @ ''1080'')) (the (enlaces (base @ ''1080'')))]
               else [])
            @ (if base \<in> set titulos
               then [PlayableItem (label program base) (the (enlaces base))]
               else [])"
    by (simp add: v_def variant_entries_def playable_def)
  have "length v \<le> 3"
    by (simp add: shape)
  with step shape ok show ?thesis
    by (simp only: dict_ok_def simp_thms)
qed

text \<open>
  C6, an instance: the page with "RealMadridTV720" and "RealMadridTV1080", an event
  on "Real Madrid TV": two playable rows, one per suffix.
\<close>

theorem variant_fan_out_witness:
  "closest_tvg_id (titulos_without_quality (snd (title_index madrid_page)))
       (sample_event ''Lunes'' ''Real Madrid TV'') = Some ''RealMadridTV''
   \<and> program_step (snd (title_index madrid_page)) (fst (title_index madrid_page))
        (titulos_without_quality (snd (title_index madrid_page)))
        (sample_event ''Lunes'' ''Real Madrid TV'') init_state
       = Inr \<lparr>new_enlaces = [''# Lunes'',
                 ''plugin://script.module.horus?action=play&id=aaaa1111'',
                 ''plugin://script.module.horus?action=play&id=bbbb2222''],
              new_titulos = [''# Lunes'',
                 ''Futbol 21:00 Betis - Sevilla (RealMadridTV720)'',
                 ''Futbol 21:00 Betis - Sevilla (RealMadridTV1080)''],
              last_date = Some ''Lunes''\<rparr>"
proof -
  let ?T = "snd (title_index madrid_page)" and ?E = "fst (title_index madrid_page)"
  let ?p = "sample_event ''Lunes'' ''Real Madrid TV''"
  have h1: "title_index madrid_page = (?E, ?T)"
    by simp
  have h2: "closest_tvg_id (titulos_without_quality ?T) ?p = Some ''RealMadridTV''"
    by code_simp
  have h3: "''RealMadridTV'' \<noteq> []"
    by simp
  have v: "variant_entries ?T ?E ?p ''RealMadridTV''
      = [PlayableItem ''Futbol 21:00 Betis - Sevilla (RealMadridTV720)''
           ''plugin://script.module.horus?action=play&id=aaaa1111'',
         PlayableItem ''Futbol 21:00 Betis - Sevilla (RealMadridTV1080)''
           ''plugin://script.module.horus?action=play&id=bbbb2222'']"
    by code_simp
  have d: "day_boundary ?p init_state
      = \<lparr>new_enlaces = [''# Lunes''], new_titulos = [''# Lunes''], last_date = Some ''Lunes''\<rparr>"
    by (simp add: day_boundary_def init_state_def sample_event_def)
  from variant_fan_out [OF h1 h2 h3, of init_state] h2 show ?thesis
    by (simp add: v d emit_def)
qed

text \<open>
  C6 as stated fails for the empty base title: an event with an empty channel name
  matches the pool entry that the raw title "720" leaves, the empty string, and
  base+"720" is a raw title, yet no playable row is appended, the empty string being
  false in \<open>if closest_tvg_id:\<close>.
\<close>

theorem empty_base_counterexample:
  "closest_tvg_id (titulos_without_quality (snd (title_index (anchor ''aaaa1111'' ''720''))))
       (sample_event ''Lunes'' '''') = Some ''''
   \<and> '''' @ ''720'' \<in> set (snd (title_index (anchor ''aaaa1111'' ''720'')))
   \<and> extract_program_links [sample_event ''Lunes'' ''''] (anchor ''aaaa1111'' ''720'')
       = Inr ([''# Lunes''], [''# Lunes''])"
  by code_simp

text \<open>
  C2 (the code does otherwise). \<open>update_list\<close> fetches the proxy list before anything
  else, and when that list is empty it returns the empty dictionary at once: whatever
  the direct request would have returned, it is never made.
\<close>

theorem empty_proxy_list_blocks_direct_fetch:
  "update_list dialog (net\<lparr>proxies_response := []\<rparr>) tv_programs now fs
     = (Inr (JObject []),
        FetchProxies PROXIES_URL # notify dialog ''Error'' ''No proxies found.'', fs)"
  by (simp add: update_list_def)

text \<open>
  C3 (the code does otherwise). No run of \<open>update_list\<close> ever requests the secondary
  URL: when the loop over the proxies ends without a success its \<open>else\<close> branch
  returns the empty dictionary, and after a success the content is not empty, so the
  fallback block is never entered. On \<open>mirror_only\<close>, where only the secondary URL
  would answer, the run ends after the one proxy has failed.
\<close>

theorem fallback_never_requested:
  "Request secondary_url None \<notin> set (fst (snd (update_list dialog net tv_programs now fs)))
   \<and> update_list True mirror_only [] ''2024-05-06 20:15:00'' empty_disk
       = (Inr (JObject []),
          [FetchProxies PROXIES_URL,
           Notification ''Connection'' ''Attempting to connect without proxy'',
           Request url_selected None,
           Notification ''Proxy'' ''Attempting to connect using proxies'',
           Notification ''Proxy'' ''Trying proxy: http://10.0.0.1:8080'',
           Request url_selected (Some ''http://10.0.0.1:8080''),
           Notification ''Error'' ''Failed to retrieve content with all proxies.''],
          empty_disk)"
proof
  show "Request secondary_url None \<notin> set (fst (snd (update_list dialog net tv_programs now fs)))"
  proof (cases "proxies_response net = []")
    case True
    then show ?thesis
      by (simp add: update_list_def notify_def)
  next
    case False
    let ?trace1 = "[FetchProxies PROXIES_URL]
        @ notify dialog ''Connection'' ''Attempting to connect without proxy''
        @ [Request url_selected None]"
    have t1: "Request secondary_url None \<notin> set ?trace1"
      by (simp add: notify_def secondary_url_def url_selected_def)
    show ?thesis
    proof (cases "truthy (get_web_content net url_selected None)")
      case True
      with False t1 show ?thesis
        by (simp add: update_list_def Let_def finish_trace)
    next
      case nt: False
      obtain content exhausted trace' where pl:
        "proxy_loop dialog net (filter_asian_proxies (proxies_response net))
           (?trace1 @ notify dialog ''Proxy'' ''Attempting to connect using proxies'')
         = (content, exhausted, trace')"
        by (metis prod_cases3)
      have "Request secondary_url None
          \<notin> set (?trace1 @ notify dialog ''Proxy'' ''Attempting to connect using proxies'')"
        using t1 by (simp add: notify_def)
      with proxy_loop_content [OF pl]
      have c: "\<not> exhausted \<longrightarrow> truthy content" and t: "Request secondary_url None \<notin> set trace'"
        by auto
      from False nt pl c t show ?thesis
        by (auto simp: update_list_def Let_def finish_trace notify_def)
    qed
  qed
  show "update_list True mirror_only [] ''2024-05-06 20:15:00'' empty_disk
       = (Inr (JObject []),
          [FetchProxies PROXIES_URL,
           Notification ''Connection'' ''Attempting to connect without proxy'',
           Request url_selected None,
           Notification ''Proxy'' ''Attempting to connect using proxies'',
           Notification ''Proxy'' ''Trying proxy: http://10.0.0.1:8080'',
           Request url_selected (Some ''http://10.0.0.1:8080''),
           Notification ''Error'' ''Failed to retrieve content with all proxies.''],
          empty_disk)"
    by code_simp
qed

text \<open>
  C8. The two lists of each extractor are the links and the titles of one list of
  rows, so they have the same length and position \<open>i\<close> of each comes from row \<open>i\<close>: the
  reconciled entries for \<open>extract_program_links\<close>, the anchors of the page for
  \<open>extract_channel_links\<close>; neither extractor raises. The dictionary that
  \<open>update_list\<close> returns is empty or holds these lists for the content it fetched.
\<close>

theorem parallel_arrays_aligned:
  "(\<exists>enlaces_eventos titulos_eventos.
       extract_program_links tv_programs html = Inr (enlaces_eventos, titulos_eventos)
       \<and> enlaces_eventos = map entry_link (reconcile tv_programs html)
       \<and> titulos_eventos = map entry_title (reconcile tv_programs html)
       \<and> length enlaces_eventos = length titulos_eventos)
   \<and> (\<exists>enlaces_canal titulos_canal.
       extract_channel_links html = Inr (enlaces_canal, titulos_canal)
       \<and> enlaces_canal = map channel_link (findall html)
       \<and> titulos_canal = map channel_title (findall html)
       \<and> length enlaces_canal = length titulos_canal)
   \<and> (fst (update_list dialog net tv_programs now fs) = Inr (JObject [])
       \<or> (\<exists>content. fst (update_list dialog net tv_programs now fs)
             = Inr (cache_data (map entry_link (reconcile tv_programs content))
                      (map entry_title (reconcile tv_programs content))
                      (map channel_link (findall content))
                      (map channel_title (findall content))
                      ''Servidor Principal'' now)))"
proof -
  have fin: "fst (finish tv_programs content now trace fs)
      = Inr (cache_data (map entry_link (reconcile tv_programs content))
               (map entry_title (reconcile tv_programs content))
               (map channel_link (findall content))
               (map channel_title (findall content))
               ''Servidor Principal'' now)" for content trace
    by (simp add: finish_def Let_def extract_program_links_reconcile extract_channel_links_rows)
  have "fst (update_list dialog net tv_programs now fs) = Inr (JObject [])
       \<or> (\<exists>content. fst (update_list dialog net tv_programs now fs)
             = fst (finish tv_programs content now [] fs))"
    by (auto simp: update_list_def Let_def fin split: prod.splits)
  then show ?thesis
    by (simp add: extract_program_links_reconcile extract_channel_links_rows fin)
qed




end
